theory Spec2Isabelle
  imports Main "HOL-Library.Word"
begin

unbundle bit_operations_syntax

section \<open>The blog service of \<^verbatim>\<open>blog_server/blog_server.go\<close>\<close>

text \<open>
  The five gRPC handlers of \<^verbatim>\<open>blog_server.go\<close> are embedded as functions that pass the
  world explicitly. The MongoDB driver and the gRPC stream are libraries outside the
  repository: the collection the handlers call is a parameter (a record of the five
  operations the handlers use, over any store state), and every call a handler issues is
  appended to a log, with the context it was given. A Go pair \<^verbatim>\<open>(result, err)\<close> of a driver
  call is a sum: \<open>Inl\<close> the error when \<^verbatim>\<open>err != nil\<close>, \<open>Inr\<close> the result otherwise. A
  handler's return \<^verbatim>\<open>(response, error)\<close> is a sum in the same way, \<open>Inl\<close> carrying the
  gRPC status built by \<^verbatim>\<open>status.Errorf\<close>.
\<close>

subsection \<open>Values of the libraries\<close>

type_synonym byte = "8 word"

text \<open>\<^verbatim>\<open>primitive.ObjectID\<close> is \<^verbatim>\<open>[12]byte\<close>; \<^verbatim>\<open>NilObjectID\<close> is its zero value.\<close>

type_synonym ObjectID = "byte list"

definition NilObjectID :: ObjectID where
  "NilObjectID = [0, 0, 0, 0, 0, 0, 0, 0, 0, 0, 0, 0]"

text \<open>
  Go's \<^verbatim>\<open>error\<close> values that the handlers meet: the errors of \<^verbatim>\<open>encoding/hex\<close> and of
  \<^verbatim>\<open>ObjectIDFromHex\<close>, the driver's \<^verbatim>\<open>ErrNoDocuments\<close>, and any other error, by its text.
\<close>

datatype go_error =
    ErrInvalidHex
  | ErrLength
  | InvalidByteError char
  | ErrNoDocuments
  | OtherError string

text \<open>
  \<^verbatim>\<open>context.Context\<close>: the background context, or the context of an incoming call with its
  deadline (if any) and whether it has been cancelled.
\<close>

datatype Context = Background | Incoming "nat option" bool

text \<open>\<^verbatim>\<open>encoding/hex\<close>: one hexadecimal digit, upper or lower case.\<close>

definition fromHexChar :: "char \<Rightarrow> byte option" where
  "fromHexChar c =
     (let n = (of_char c :: nat) in
      if 48 \<le> n \<and> n \<le> 57 then Some (of_nat (n - 48))
      else if 97 \<le> n \<and> n \<le> 102 then Some (of_nat (n - 87))
      else if 65 \<le> n \<and> n \<le> 70 then Some (of_nat (n - 55))
      else None)"

text \<open>
  \<^verbatim>\<open>hex.DecodeString\<close>: two digits per byte; the first bad digit is reported, and a
  string of odd length whose digits are all good is \<^verbatim>\<open>ErrLength\<close>.
\<close>

fun DecodeString :: "string \<Rightarrow> go_error + byte list" where
  "DecodeString [] = Inr []"
| "DecodeString [p] =
     (case fromHexChar p of None \<Rightarrow> Inl (InvalidByteError p) | Some a \<Rightarrow> Inl ErrLength)"
| "DecodeString (p # q # rest) =
     (case fromHexChar p of
        None \<Rightarrow> Inl (InvalidByteError p)
      | Some a \<Rightarrow>
          (case fromHexChar q of
             None \<Rightarrow> Inl (InvalidByteError q)
           | Some b \<Rightarrow>
               (case DecodeString rest of
                  Inl e \<Rightarrow> Inl e
                | Inr bs \<Rightarrow> Inr ((push_bit 4 a OR b) # bs))))"

definition hextable :: string where
  "hextable = ''0123456789abcdef''"

text \<open>\<^verbatim>\<open>hex.EncodeToString\<close>: two lower-case digits per byte.\<close>

fun EncodeToString :: "byte list \<Rightarrow> string" where
  "EncodeToString [] = []"
| "EncodeToString (v # vs) =
     hextable ! unat (drop_bit 4 v) # hextable ! unat (v AND 15) # EncodeToString vs"

text \<open>
  \<^verbatim>\<open>primitive.ObjectIDFromHex\<close>: a string of 24 hexadecimal digits, and nothing else, is a
  well-formed identifier.
\<close>

definition ObjectIDFromHex :: "string \<Rightarrow> go_error + ObjectID" where
  "ObjectIDFromHex s =
     (if length s \<noteq> 24 then Inl ErrInvalidHex
      else case DecodeString s of Inl err \<Rightarrow> Inl err | Inr b \<Rightarrow> Inr b)"

text \<open>\<^verbatim>\<open>ObjectID.Hex\<close>.\<close>

definition Hex :: "ObjectID \<Rightarrow> string" where
  "Hex oid = EncodeToString oid"

subsection \<open>gRPC status\<close>

text \<open>
  The status codes the handlers produce. \<open>OK\<close> is the code of a nil error. A message is
  kept as the format string and the arguments the source gives to \<^verbatim>\<open>fmt.Sprintf\<close>
  (\<open>None\<close> is a nil error argument).
\<close>

datatype codes = OK | InvalidArgument | NotFound | Internal

datatype message = Sprintf string "go_error option list"

datatype Status = Errorf codes message

fun Code :: "Status option \<Rightarrow> codes" where
  "Code None = OK"
| "Code (Some (Errorf c m)) = c"

subsection \<open>The data model\<close>

text \<open>
  \<^verbatim>\<open>blogItem\<close> (lines 23-28). A field the source leaves out of a composite literal has its
  zero value: \<open>NilObjectID\<close> for \<open>ID\<close>.
\<close>

record blogItem =
  ID :: ObjectID
  AuthorID :: string
  Content :: string
  Title :: string

text \<open>
  Modelled from the spec: the generated package \<^verbatim>\<open>blogpb\<close> is not among the sources. Section 6
  of the specification gives the messages: a \<open>Blog\<close> with \<open>id\<close>, \<open>authorId\<close>, \<open>title\<close> and
  \<open>content\<close>; a Create and an Update request holding a \<open>Blog\<close>; a Read and a Delete request
  holding a blog id; responses holding a \<open>Blog\<close> (Create, Read, Update, each List message)
  or a blog id (Delete). A message field is a pointer that may be nil (\<open>None\<close>), and the
  generated getters return the zero value on a nil receiver.
\<close>

record Blog =
  Id :: string
  AuthorId :: string
  Title :: string
  Content :: string

datatype CreateBlogRequest = CreateBlogRequest "Blog option"
datatype ReadBlogRequest = ReadBlogRequest string
datatype UpdateBlogRequest = UpdateBlogRequest "Blog option"
datatype DeleteBlogRequest = DeleteBlogRequest string
datatype ListBlogRequest = ListBlogRequest

datatype CreateBlogResponse = CreateBlogResponse Blog
datatype ReadBlogResponse = ReadBlogResponse Blog
datatype UpdateBlogResponse = UpdateBlogResponse Blog
datatype DeleteBlogResponse = DeleteBlogResponse string
datatype ListBlogResponse = ListBlogResponse Blog

fun CreateBlogRequest_GetBlog :: "CreateBlogRequest \<Rightarrow> Blog option" where
  "CreateBlogRequest_GetBlog (CreateBlogRequest b) = b"

fun UpdateBlogRequest_GetBlog :: "UpdateBlogRequest \<Rightarrow> Blog option" where
  "UpdateBlogRequest_GetBlog (UpdateBlogRequest b) = b"

fun ReadBlogRequest_GetBlogId :: "ReadBlogRequest \<Rightarrow> string" where
  "ReadBlogRequest_GetBlogId (ReadBlogRequest i) = i"

fun DeleteBlogRequest_GetBlogId :: "DeleteBlogRequest \<Rightarrow> string" where
  "DeleteBlogRequest_GetBlogId (DeleteBlogRequest i) = i"

fun GetId :: "Blog option \<Rightarrow> string" where
  "GetId None = []"
| "GetId (Some b) = Id b"

fun GetAuthorId :: "Blog option \<Rightarrow> string" where
  "GetAuthorId None = []"
| "GetAuthorId (Some b) = AuthorId b"

fun GetTitle :: "Blog option \<Rightarrow> string" where
  "GetTitle None = []"
| "GetTitle (Some b) = Blog.Title b"

fun GetContent :: "Blog option \<Rightarrow> string" where
  "GetContent None = []"
| "GetContent (Some b) = Blog.Content b"

text \<open>\<^verbatim>\<open>blogItemToBlogpb\<close> (lines 174-181).\<close>

definition blogItemToBlogpb :: "blogItem \<Rightarrow> Blog" where
  "blogItemToBlogpb item =
     \<lparr>Id = Hex (ID item), AuthorId = AuthorID item,
      Title = blogItem.Title item, Content = blogItem.Content item\<rparr>"

subsection \<open>The driver\<close>

text \<open>
  A stored document is represented by what \<^verbatim>\<open>bson.Unmarshal\<close> into a \<^verbatim>\<open>blogItem\<close> makes
  of it: the item, or the error of a document that does not decode.
\<close>

type_synonym raw_doc = "go_error + blogItem"

text \<open>
  The two filters of the source: \<^verbatim>\<open>bson.M{"_id": oID}\<close> and \<^verbatim>\<open>primitive.D{{}}\<close>.
\<close>

datatype filter_doc = IdFilter ObjectID | EmptyD

text \<open>\<^verbatim>\<open>interface{}\<close> values, as far as a type assertion to \<^verbatim>\<open>ObjectID\<close> tells them apart.\<close>

datatype any = AnyObjectID ObjectID | AnyString string | AnyInt int | AnyNil

record InsertOneResult =
  InsertedID :: any

record UpdateResult =
  MatchedCount :: "64 word"
  ModifiedCount :: "64 word"
  UpsertedCount :: "64 word"

record DeleteResult =
  DeletedCount :: "64 word"

text \<open>
  \<^verbatim>\<open>*mongo.SingleResult\<close>: the error of the find, if any, and the document found, if any.
\<close>

record SingleResult =
  sr_err :: "go_error option"
  sr_rdr :: "raw_doc option"

text \<open>
  \<^verbatim>\<open>*mongo.Cursor\<close> over a finite result (the find of the source sets no option, so the
  cursor is not tailable): the documents still to come, the error that iteration meets
  once they are used up (\<open>None\<close> for a clean end), the current document and the error
  \<^verbatim>\<open>Err\<close> reports.
\<close>

record Cursor =
  cursor_id :: nat
  pending :: "raw_doc list"
  final_err :: "go_error option"
  Current :: "raw_doc option"
  err :: "go_error option"

text \<open>
  The collection, as the handlers use it: a parameter of the model. Each operation takes
  the context and the store state and returns its outcome and the new state.
\<close>

record 's driver =
  insertOne :: "Context \<Rightarrow> blogItem \<Rightarrow> 's \<Rightarrow> (go_error + InsertOneResult) \<times> 's"
  findOne :: "Context \<Rightarrow> filter_doc \<Rightarrow> 's \<Rightarrow> SingleResult \<times> 's"
  replaceOne :: "Context \<Rightarrow> filter_doc \<Rightarrow> blogItem \<Rightarrow> 's \<Rightarrow> (go_error + UpdateResult) \<times> 's"
  deleteOne :: "Context \<Rightarrow> filter_doc \<Rightarrow> 's \<Rightarrow> (go_error + DeleteResult) \<times> 's"
  findAll :: "Context \<Rightarrow> filter_doc \<Rightarrow> 's \<Rightarrow> (go_error + Cursor) \<times> 's"

text \<open>The calls that reach the store, with the context each was given.\<close>

datatype call =
    CallInsertOne Context blogItem
  | CallFindOne Context filter_doc
  | CallReplaceOne Context filter_doc blogItem
  | CallDeleteOne Context filter_doc
  | CallFind Context filter_doc
  | CallNext Context nat
  | CallClose Context nat

fun call_ctx :: "call \<Rightarrow> Context" where
  "call_ctx (CallInsertOne c x) = c"
| "call_ctx (CallFindOne c f) = c"
| "call_ctx (CallReplaceOne c f x) = c"
| "call_ctx (CallDeleteOne c f) = c"
| "call_ctx (CallFind c f) = c"
| "call_ctx (CallNext c n) = c"
| "call_ctx (CallClose c n) = c"

record 's world =
  store :: 's
  calls :: "call list"

definition InsertOne ::
  "'s driver \<Rightarrow> Context \<Rightarrow> blogItem \<Rightarrow> 's world \<Rightarrow> (go_error + InsertOneResult) \<times> 's world" where
  "InsertOne d c doc w =
     (case insertOne d c doc (store w) of
        (r, s) \<Rightarrow> (r, \<lparr>store = s, calls = calls w @ [CallInsertOne c doc]\<rparr>))"

definition FindOne ::
  "'s driver \<Rightarrow> Context \<Rightarrow> filter_doc \<Rightarrow> 's world \<Rightarrow> SingleResult \<times> 's world" where
  "FindOne d c f w =
     (case findOne d c f (store w) of
        (r, s) \<Rightarrow> (r, \<lparr>store = s, calls = calls w @ [CallFindOne c f]\<rparr>))"

definition ReplaceOne ::
  "'s driver \<Rightarrow> Context \<Rightarrow> filter_doc \<Rightarrow> blogItem \<Rightarrow> 's world \<Rightarrow> (go_error + UpdateResult) \<times> 's world" where
  "ReplaceOne d c f doc w =
     (case replaceOne d c f doc (store w) of
        (r, s) \<Rightarrow> (r, \<lparr>store = s, calls = calls w @ [CallReplaceOne c f doc]\<rparr>))"

definition DeleteOne ::
  "'s driver \<Rightarrow> Context \<Rightarrow> filter_doc \<Rightarrow> 's world \<Rightarrow> (go_error + DeleteResult) \<times> 's world" where
  "DeleteOne d c f w =
     (case deleteOne d c f (store w) of
        (r, s) \<Rightarrow> (r, \<lparr>store = s, calls = calls w @ [CallDeleteOne c f]\<rparr>))"

definition Find ::
  "'s driver \<Rightarrow> Context \<Rightarrow> filter_doc \<Rightarrow> 's world \<Rightarrow> (go_error + Cursor) \<times> 's world" where
  "Find d c f w =
     (case findAll d c f (store w) of
        (r, s) \<Rightarrow> (r, \<lparr>store = s, calls = calls w @ [CallFind c f]\<rparr>))"

text \<open>
  \<^verbatim>\<open>SingleResult.Decode\<close>: the error of the find; \<^verbatim>\<open>ErrNoDocuments\<close> when nothing was
  found; otherwise what unmarshalling the document gives.
\<close>

definition SingleResult_Decode :: "SingleResult \<Rightarrow> go_error + blogItem" where
  "SingleResult_Decode res =
     (case sr_err res of
        Some e \<Rightarrow> Inl e
      | None \<Rightarrow> (case sr_rdr res of None \<Rightarrow> Inl ErrNoDocuments | Some raw \<Rightarrow> raw))"

text \<open>
  \<^verbatim>\<open>Cursor.Next\<close>: true with the next document made current; false when none is left,
  and then \<^verbatim>\<open>Err\<close> holds the error iteration met, if any.
\<close>

definition Next :: "Context \<Rightarrow> Cursor \<Rightarrow> 's world \<Rightarrow> bool \<times> Cursor \<times> 's world" where
  "Next c cur w =
     (let w1 = w\<lparr>calls := calls w @ [CallNext c (cursor_id cur)]\<rparr> in
      case pending cur of
        [] \<Rightarrow> (False, cur\<lparr>err := final_err cur\<rparr>, w1)
      | x # xs \<Rightarrow> (True, cur\<lparr>pending := xs, Current := Some x\<rparr>, w1))"

definition Cursor_Decode :: "Cursor \<Rightarrow> go_error + blogItem" where
  "Cursor_Decode cur =
     (case Current cur of None \<Rightarrow> Inl (OtherError ''EOF'') | Some raw \<Rightarrow> raw)"

definition Cursor_Err :: "Cursor \<Rightarrow> go_error option" where
  "Cursor_Err cur = err cur"

definition Close :: "Context \<Rightarrow> Cursor \<Rightarrow> 's world \<Rightarrow> 's world" where
  "Close c cur w = w\<lparr>calls := calls w @ [CallClose c (cursor_id cur)]\<rparr>"

subsection \<open>The response stream of ListBlog\<close>

text \<open>
  \<^verbatim>\<open>blogpb.BlogService_ListBlogServer\<close>, a parameter as well: the context of the call, the
  error the transport returns for the n-th \<^verbatim>\<open>Send\<close> (\<open>None\<close> when it succeeds), and the
  messages handed to \<^verbatim>\<open>Send\<close> so far, in order.
\<close>

record ServerStream =
  stream_ctx :: Context
  send_result :: "nat \<Rightarrow> go_error option"
  sends :: "ListBlogResponse list"

definition Send :: "ServerStream \<Rightarrow> ListBlogResponse \<Rightarrow> go_error option \<times> ServerStream" where
  "Send stream m =
     (send_result stream (length (sends stream)), stream\<lparr>sends := sends stream @ [m]\<rparr>)"

subsection \<open>The handlers\<close>

text \<open>\<^verbatim>\<open>CreateBlog\<close> (lines 92-122).\<close>

definition CreateBlog ::
  "'s driver \<Rightarrow> Context \<Rightarrow> CreateBlogRequest \<Rightarrow> 's world \<Rightarrow> (Status + CreateBlogResponse) \<times> 's world" where
  "CreateBlog d ctx req w =
     (let blog = CreateBlogRequest_GetBlog req;
          insertData = \<lparr>ID = NilObjectID, AuthorID = GetAuthorId blog,
                        Content = GetContent blog, Title = GetTitle blog\<rparr>
      in case InsertOne d Background insertData w of
           (Inl insertErr, w1) \<Rightarrow>
             (Inl (Errorf Internal (Sprintf ''Interal error: %v'' [Some insertErr])), w1)
         | (Inr resp, w1) \<Rightarrow>
             (case InsertedID resp of
                AnyObjectID blogID \<Rightarrow>
                  (Inr (CreateBlogResponse
                     \<lparr>Id = Hex blogID, AuthorId = GetAuthorId blog,
                      Title = GetTitle blog, Content = GetContent blog\<rparr>), w1)
              | _ \<Rightarrow>
                  (Inl (Errorf Internal (Sprintf ''Can not convert to ObjectID: %v'' [None])), w1)))"

text \<open>\<^verbatim>\<open>ReadBlog\<close> (lines 123-145).\<close>

definition ReadBlog ::
  "'s driver \<Rightarrow> Context \<Rightarrow> ReadBlogRequest \<Rightarrow> 's world \<Rightarrow> (Status + ReadBlogResponse) \<times> 's world" where
  "ReadBlog d ctx req w =
     (let blogID = ReadBlogRequest_GetBlogId req in
      case ObjectIDFromHex blogID of
        Inl e \<Rightarrow> (Inl (Errorf InvalidArgument (Sprintf ''Invalid blog ID :%v'' [Some e])), w)
      | Inr oID \<Rightarrow>
          (case FindOne d Background (IdFilter oID) w of
             (res, w1) \<Rightarrow>
               (case SingleResult_Decode res of
                  Inl e \<Rightarrow> (Inl (Errorf NotFound (Sprintf ''Blog not found: %v'' [Some e])), w1)
                | Inr data \<Rightarrow> (Inr (ReadBlogResponse (blogItemToBlogpb data)), w1))))"

text \<open>\<^verbatim>\<open>UpdateBlog\<close> (lines 146-173). The result of \<^verbatim>\<open>ReplaceOne\<close> is discarded.\<close>

definition UpdateBlog ::
  "'s driver \<Rightarrow> Context \<Rightarrow> UpdateBlogRequest \<Rightarrow> 's world \<Rightarrow> (Status + UpdateBlogResponse) \<times> 's world" where
  "UpdateBlog d ctx req w =
     (let blog = UpdateBlogRequest_GetBlog req in
      case ObjectIDFromHex (GetId blog) of
        Inl e \<Rightarrow> (Inl (Errorf InvalidArgument (Sprintf ''Can not parse blog ID: %v'' [Some e])), w)
      | Inr blogID \<Rightarrow>
          (let data = \<lparr>ID = NilObjectID, AuthorID = GetAuthorId blog,
                       Content = GetContent blog, Title = GetTitle blog\<rparr>
           in case ReplaceOne d Background (IdFilter blogID) data w of
                (Inl updateErr, w1) \<Rightarrow>
                  (Inl (Errorf NotFound (Sprintf ''Can not update blog : %v'' [Some updateErr])), w1)
              | (Inr res, w1) \<Rightarrow>
                  (Inr (UpdateBlogResponse (blogItemToBlogpb (data\<lparr>ID := blogID\<rparr>))), w1)))"

text \<open>\<^verbatim>\<open>DeleteBlog\<close> (lines 182-207).\<close>

definition DeleteBlog ::
  "'s driver \<Rightarrow> Context \<Rightarrow> DeleteBlogRequest \<Rightarrow> 's world \<Rightarrow> (Status + DeleteBlogResponse) \<times> 's world" where
  "DeleteBlog d ctx req w =
     (case ObjectIDFromHex (DeleteBlogRequest_GetBlogId req) of
        Inl parseErr \<Rightarrow>
          (Inl (Errorf InvalidArgument (Sprintf ''Can not parse blog ID: %v'' [Some parseErr])), w)
      | Inr oID \<Rightarrow>
          (case DeleteOne d Background (IdFilter oID) w of
             (Inl deleteErr, w1) \<Rightarrow>
               (Inl (Errorf Internal (Sprintf ''Can not delete blog : %v'' [Some deleteErr])), w1)
           | (Inr res, w1) \<Rightarrow>
               if DeletedCount res = 0
               then (Inl (Errorf NotFound (Sprintf ''Not found blog with provided ID'' [])), w1)
               else (Inr (DeleteBlogResponse (DeleteBlogRequest_GetBlogId req)), w1)))"

text \<open>
  The loop of \<^verbatim>\<open>ListBlog\<close> (lines 218-230): \<open>Some\<close> status when the body returns from
  inside the loop, \<open>None\<close> when \<^verbatim>\<open>Next\<close> ends it. The error \<^verbatim>\<open>Send\<close> returns is dropped.
\<close>

function ListBlog_loop ::
  "Cursor \<Rightarrow> ServerStream \<Rightarrow> 's world \<Rightarrow> Status option \<times> Cursor \<times> ServerStream \<times> 's world" where
  "ListBlog_loop cur stream w =
     (case Next Background cur w of
        (False, cur1, w1) \<Rightarrow> (None, cur1, stream, w1)
      | (True, cur1, w1) \<Rightarrow>
          (case Cursor_Decode cur1 of
             Inl e \<Rightarrow>
               (Some (Errorf Internal (Sprintf ''unable to decode data : %v'' [Some e])),
                cur1, stream, w1)
           | Inr data \<Rightarrow>
               (case Send stream (ListBlogResponse (blogItemToBlogpb data)) of
                  (send_err, stream1) \<Rightarrow> ListBlog_loop cur1 stream1 w1)))"
  by pat_completeness auto
termination
  by (relation "measure (\<lambda>(cur, stream, w). length (pending cur))")
     (auto simp: Next_def Let_def split: list.splits)

declare ListBlog_loop.simps [simp del]

text \<open>
  \<^verbatim>\<open>ListBlog\<close> (lines 208-238). The body after the \<^verbatim>\<open>defer\<close> of line 217 is
  \<open>ListBlog_body\<close>; the deferred \<^verbatim>\<open>cur.Close\<close> runs when the body returns, whatever it
  returns.
\<close>

definition ListBlog_body ::
  "Cursor \<Rightarrow> ServerStream \<Rightarrow> 's world \<Rightarrow> Status option \<times> Cursor \<times> ServerStream \<times> 's world" where
  "ListBlog_body cur stream w =
     (case ListBlog_loop cur stream w of
        (Some st, cur1, stream1, w1) \<Rightarrow> (Some st, cur1, stream1, w1)
      | (None, cur1, stream1, w1) \<Rightarrow>
          (case Cursor_Err cur1 of
             Some e \<Rightarrow>
               (Some (Errorf Internal (Sprintf ''internal error from cursor: %v'' [Some e])),
                cur1, stream1, w1)
           | None \<Rightarrow> (None, cur1, stream1, w1)))"

definition ListBlog ::
  "'s driver \<Rightarrow> ListBlogRequest \<Rightarrow> ServerStream \<Rightarrow> 's world \<Rightarrow> Status option \<times> ServerStream \<times> 's world" where
  "ListBlog d req stream w =
     (case Find d Background EmptyD w of
        (Inl e, w1) \<Rightarrow>
          (Some (Errorf Internal (Sprintf ''internal error when find collection: %v'' [Some e])),
           stream, w1)
      | (Inr cur, w1) \<Rightarrow>
          (case ListBlog_body cur stream w1 of
             (r, cur1, stream1, w2) \<Rightarrow> (r, stream1, Close Background cur1 w2)))"

subsection \<open>A collection in memory\<close>

text \<open>
  A collection to run the handlers on: the documents in insertion order, each under its
  \<open>_id\<close>, and a counter for fresh identifiers. It follows the driver's contract: an
  insert answers with the new \<^verbatim>\<open>ObjectID\<close>; a find of no document decodes to
  \<^verbatim>\<open>ErrNoDocuments\<close>; a replace or a delete that matches nothing is no error, it reports a
  count of zero. It ignores the context and never fails.
\<close>

record mem =
  docs :: "(ObjectID \<times> raw_doc) list"
  next_id :: nat

definition oid_of_nat :: "nat \<Rightarrow> ObjectID" where
  "oid_of_nat n =
     [0, 0, 0, 0, 0, 0, 0, 0,
      of_nat (n div 16777216), of_nat (n div 65536), of_nat (n div 256), of_nat n]"

fun matches :: "filter_doc \<Rightarrow> ObjectID \<times> raw_doc \<Rightarrow> bool" where
  "matches (IdFilter i) (k, v) = (k = i)"
| "matches EmptyD (k, v) = True"

fun replace_first :: "filter_doc \<Rightarrow> raw_doc \<Rightarrow> (ObjectID \<times> raw_doc) list \<Rightarrow> (ObjectID \<times> raw_doc) list" where
  "replace_first f v [] = []"
| "replace_first f v (x # xs) = (if matches f x then (fst x, v) # xs else x # replace_first f v xs)"

fun delete_first :: "filter_doc \<Rightarrow> (ObjectID \<times> raw_doc) list \<Rightarrow> (ObjectID \<times> raw_doc) list" where
  "delete_first f [] = []"
| "delete_first f (x # xs) = (if matches f x then xs else x # delete_first f xs)"

definition mem_insertOne :: "Context \<Rightarrow> blogItem \<Rightarrow> mem \<Rightarrow> (go_error + InsertOneResult) \<times> mem" where
  "mem_insertOne c doc s =
     (let oid = (if ID doc = NilObjectID then oid_of_nat (next_id s) else ID doc) in
      (Inr \<lparr>InsertedID = AnyObjectID oid\<rparr>,
       \<lparr>docs = docs s @ [(oid, Inr (doc\<lparr>ID := oid\<rparr>))], next_id = Suc (next_id s)\<rparr>))"

definition mem_findOne :: "Context \<Rightarrow> filter_doc \<Rightarrow> mem \<Rightarrow> SingleResult \<times> mem" where
  "mem_findOne c f s =
     (case filter (matches f) (docs s) of
        [] \<Rightarrow> (\<lparr>sr_err = None, sr_rdr = None\<rparr>, s)
      | x # xs \<Rightarrow> (\<lparr>sr_err = None, sr_rdr = Some (snd x)\<rparr>, s))"

definition mem_replaceOne :: "Context \<Rightarrow> filter_doc \<Rightarrow> blogItem \<Rightarrow> mem \<Rightarrow> (go_error + UpdateResult) \<times> mem" where
  "mem_replaceOne c f doc s =
     (case filter (matches f) (docs s) of
        [] \<Rightarrow> (Inr \<lparr>MatchedCount = 0, ModifiedCount = 0, UpsertedCount = 0\<rparr>, s)
      | x # xs \<Rightarrow>
          (Inr \<lparr>MatchedCount = 1, ModifiedCount = 1, UpsertedCount = 0\<rparr>,
           s\<lparr>docs := replace_first f (Inr (doc\<lparr>ID := fst x\<rparr>)) (docs s)\<rparr>))"

definition mem_deleteOne :: "Context \<Rightarrow> filter_doc \<Rightarrow> mem \<Rightarrow> (go_error + DeleteResult) \<times> mem" where
  "mem_deleteOne c f s =
     (case filter (matches f) (docs s) of
        [] \<Rightarrow> (Inr \<lparr>DeletedCount = 0\<rparr>, s)
      | x # xs \<Rightarrow> (Inr \<lparr>DeletedCount = 1\<rparr>, s\<lparr>docs := delete_first f (docs s)\<rparr>))"

definition mem_findAll :: "Context \<Rightarrow> filter_doc \<Rightarrow> mem \<Rightarrow> (go_error + Cursor) \<times> mem" where
  "mem_findAll c f s =
     (Inr \<lparr>cursor_id = 0, pending = map snd (filter (matches f) (docs s)),
           final_err = None, Current = None, err = None\<rparr>, s)"

definition mem_driver :: "mem driver" where
  "mem_driver =
     \<lparr>insertOne = mem_insertOne, findOne = mem_findOne, replaceOne = mem_replaceOne,
      deleteOne = mem_deleteOne, findAll = mem_findAll\<rparr>"

text \<open>A store that cannot be reached: every operation fails with the same error.\<close>

definition failing_driver :: "go_error \<Rightarrow> mem driver" where
  "failing_driver e =
     \<lparr>insertOne = (\<lambda>c doc s. (Inl e, s)),
      findOne = (\<lambda>c f s. (\<lparr>sr_err = Some e, sr_rdr = None\<rparr>, s)),
      replaceOne = (\<lambda>c f doc s. (Inl e, s)),
      deleteOne = (\<lambda>c f s. (Inl e, s)),
      findAll = (\<lambda>c f s. (Inl e, s))\<rparr>"

definition empty_world :: "mem world" where
  "empty_world = \<lparr>store = \<lparr>docs = [], next_id = 1\<rparr>, calls = []\<rparr>"

text \<open>The world whose collection holds the given documents.\<close>

definition world_of :: "(ObjectID \<times> raw_doc) list \<Rightarrow> mem world" where
  "world_of ds = \<lparr>store = \<lparr>docs = ds, next_id = Suc (length ds)\<rparr>, calls = []\<rparr>"

text \<open>The calls issued between two worlds: what the later log adds to the earlier.\<close>

definition issued :: "'s world \<Rightarrow> 's world \<Rightarrow> call list" where
  "issued w w' = drop (length (calls w)) (calls w')"

text \<open>Two stored items, a driver whose cursor breaks after its first document, and the
  stream of a client that has gone away: every \<^verbatim>\<open>Send\<close> on it fails.\<close>

definition item1 :: blogItem where
  "item1 = \<lparr>ID = oid_of_nat 1, AuthorID = ''u1'', Content = ''world'', Title = ''hello''\<rparr>"

definition item2 :: blogItem where
  "item2 = \<lparr>ID = oid_of_nat 2, AuthorID = ''u2'', Content = ''again'', Title = ''hello''\<rparr>"

definition broken_cursor_driver :: "mem driver" where
  "broken_cursor_driver =
     mem_driver\<lparr>findAll := \<lambda>c f s.
       (Inr \<lparr>cursor_id = 7, pending = [Inr item1], final_err = Some (OtherError ''connection reset''),
             Current = None, err = None\<rparr>, s)\<rparr>"

definition closed_stream :: ServerStream where
  "closed_stream =
     \<lparr>stream_ctx = Incoming None True,
      send_result = (\<lambda>n. Some (OtherError ''transport is closing'')), sends = []\<rparr>"

section \<open>Identifiers\<close>

lemma ObjectIDFromHex_1: "ObjectIDFromHex ''000000000000000000000001'' = Inr (oid_of_nat 1)"
  by (simp add: ObjectIDFromHex_def fromHexChar_def oid_of_nat_def)

lemma Hex_1: "Hex (oid_of_nat 1) = ''000000000000000000000001''"
  by (simp add: Hex_def oid_of_nat_def hextable_def)

section \<open>The loop of ListBlog\<close>

text \<open>One step of the loop, by what the cursor has next.\<close>

lemma loop_Nil:
  "pending cur = [] \<Longrightarrow>
   ListBlog_loop cur stream w =
     (None, cur\<lparr>err := final_err cur\<rparr>, stream,
      w\<lparr>calls := calls w @ [CallNext Background (cursor_id cur)]\<rparr>)"
  by (subst ListBlog_loop.simps) (simp add: Next_def)

lemma loop_Inl:
  "pending cur = Inl e # xs \<Longrightarrow>
   ListBlog_loop cur stream w =
     (Some (Errorf Internal (Sprintf ''unable to decode data : %v'' [Some e])),
      cur\<lparr>pending := xs, Current := Some (Inl e)\<rparr>, stream,
      w\<lparr>calls := calls w @ [CallNext Background (cursor_id cur)]\<rparr>)"
  by (subst ListBlog_loop.simps) (simp add: Next_def Cursor_Decode_def)

lemma loop_Inr:
  "pending cur = Inr data # xs \<Longrightarrow>
   ListBlog_loop cur stream w =
     ListBlog_loop (cur\<lparr>pending := xs, Current := Some (Inr data)\<rparr>)
       (stream\<lparr>sends := sends stream @ [ListBlogResponse (blogItemToBlogpb data)]\<rparr>)
       (w\<lparr>calls := calls w @ [CallNext Background (cursor_id cur)]\<rparr>)"
  by (subst ListBlog_loop.simps) (simp add: Next_def Cursor_Decode_def Send_def)

text \<open>
  The loop issues \<^verbatim>\<open>Next\<close> calls only, all with the background context and on the cursor
  it was given, and leaves the store alone.
\<close>

lemma loop_calls:
  "pending cur = xs \<Longrightarrow>
   \<exists>k. snd (snd (snd (ListBlog_loop cur stream w))) =
         w\<lparr>calls := calls w @ replicate k (CallNext Background (cursor_id cur))\<rparr>
     \<and> cursor_id (fst (snd (ListBlog_loop cur stream w))) = cursor_id cur"
proof (induction xs arbitrary: cur stream w)
  case Nil
  then show ?case
    by (simp add: loop_Nil) (rule exI [of _ "Suc 0"], simp)
next
  case (Cons x xs)
  show ?case
  proof (cases x)
    case (Inl e)
    with Cons.prems show ?thesis
      by (simp add: loop_Inl) (rule exI [of _ "Suc 0"], simp)
  next
    case (Inr data)
    let ?cur = "cur\<lparr>pending := xs, Current := Some (Inr data)\<rparr>"
    let ?stream = "stream\<lparr>sends := sends stream @ [ListBlogResponse (blogItemToBlogpb data)]\<rparr>"
    let ?w = "w\<lparr>calls := calls w @ [CallNext Background (cursor_id cur)]\<rparr>"
    have "pending ?cur = xs" by simp
    from Cons.IH [OF this, of ?stream ?w] obtain k where
      k: "snd (snd (snd (ListBlog_loop ?cur ?stream ?w))) =
            ?w\<lparr>calls := calls ?w @ replicate k (CallNext Background (cursor_id ?cur))\<rparr>"
         "cursor_id (fst (snd (ListBlog_loop ?cur ?stream ?w))) = cursor_id ?cur"
      by blast
    have eq: "ListBlog_loop cur stream w = ListBlog_loop ?cur ?stream ?w"
      using Cons.prems Inr by (simp add: loop_Inr)
    show ?thesis
      unfolding eq using k
      by (intro exI [of _ "Suc k"]) (simp add: replicate_app_Cons_same)
  qed
qed

lemma body_calls:
  "\<exists>k. snd (snd (snd (ListBlog_body cur stream w))) =
         w\<lparr>calls := calls w @ replicate k (CallNext Background (cursor_id cur))\<rparr>
     \<and> cursor_id (fst (snd (ListBlog_body cur stream w))) = cursor_id cur"
proof -
  obtain k where
    "snd (snd (snd (ListBlog_loop cur stream w))) =
       w\<lparr>calls := calls w @ replicate k (CallNext Background (cursor_id cur))\<rparr>"
    "cursor_id (fst (snd (ListBlog_loop cur stream w))) = cursor_id cur"
    using loop_calls [OF refl, of cur stream w] by blast
  then show ?thesis
    by (intro exI [of _ k])
       (auto simp: ListBlog_body_def split: prod.splits option.splits)
qed

lemma ListBlog_calls:
  assumes "findAll d Background EmptyD (store w) = (Inr cur, s)"
  shows "\<exists>k. snd (snd (ListBlog d req stream w)) =
           \<lparr>store = s,
            calls = calls w @ CallFind Background EmptyD #
                    replicate k (CallNext Background (cursor_id cur)) @
                    [CallClose Background (cursor_id cur)]\<rparr>"
proof -
  let ?w1 = "\<lparr>store = s, calls = calls w @ [CallFind Background EmptyD]\<rparr>"
  obtain k where
    "snd (snd (snd (ListBlog_body cur stream ?w1))) =
       ?w1\<lparr>calls := calls ?w1 @ replicate k (CallNext Background (cursor_id cur))\<rparr>"
    "cursor_id (fst (snd (ListBlog_body cur stream ?w1))) = cursor_id cur"
    using body_calls [of cur stream ?w1] by blast
  then show ?thesis
    using assms
    by (intro exI [of _ k])
       (auto simp: ListBlog_def Find_def Close_def split: prod.splits)
qed

text \<open>When every document decodes, the loop ends by itself and has sent them all.\<close>

lemma loop_all_decodable:
  "pending cur = map Inr items \<Longrightarrow>
   fst (ListBlog_loop cur stream w) = None
   \<and> err (fst (snd (ListBlog_loop cur stream w))) = final_err cur
   \<and> fst (snd (snd (ListBlog_loop cur stream w))) =
       stream\<lparr>sends := sends stream @ map (\<lambda>i. ListBlogResponse (blogItemToBlogpb i)) items\<rparr>"
proof (induction items arbitrary: cur stream w)
  case Nil
  then show ?case by (simp add: loop_Nil)
next
  case (Cons i items)
  let ?cur = "cur\<lparr>pending := map Inr items, Current := Some (Inr i)\<rparr>"
  have "pending ?cur = map Inr items" by simp
  from Cons.IH [OF this] Cons.prems show ?case
    by (simp add: loop_Inr)
qed

text \<open>The context of the stream is never read.\<close>

lemma stream_update_swap:
  "(st\<lparr>stream_ctx := c\<rparr>)\<lparr>sends := ms\<rparr> = (st\<lparr>sends := ms\<rparr>)\<lparr>stream_ctx := c\<rparr>"
  by (cases st) simp

lemma loop_stream_ctx:
  "pending cur = xs \<Longrightarrow>
   ListBlog_loop cur (stream\<lparr>stream_ctx := c\<rparr>) w =
     (case ListBlog_loop cur stream w of
        (r, cur1, stream1, w1) \<Rightarrow> (r, cur1, stream1\<lparr>stream_ctx := c\<rparr>, w1))"
proof (induction xs arbitrary: cur stream w)
  case Nil
  then show ?case by (simp add: loop_Nil)
next
  case (Cons x xs)
  show ?case
  proof (cases x)
    case (Inl e)
    with Cons.prems show ?thesis by (simp add: loop_Inl)
  next
    case (Inr data)
    let ?cur = "cur\<lparr>pending := xs, Current := Some (Inr data)\<rparr>"
    let ?stream = "stream\<lparr>sends := sends stream @ [ListBlogResponse (blogItemToBlogpb data)]\<rparr>"
    let ?w = "w\<lparr>calls := calls w @ [CallNext Background (cursor_id cur)]\<rparr>"
    have p: "pending ?cur = xs" by simp
    have a: "ListBlog_loop cur (stream\<lparr>stream_ctx := c\<rparr>) w =
             ListBlog_loop ?cur (?stream\<lparr>stream_ctx := c\<rparr>) ?w"
      using Cons.prems Inr by (simp add: loop_Inr stream_update_swap)
    have b: "ListBlog_loop cur stream w = ListBlog_loop ?cur ?stream ?w"
      using Cons.prems Inr by (simp add: loop_Inr)
    show ?thesis
      unfolding a b by (rule Cons.IH [OF p])
  qed
qed

lemma ListBlog_stream_ctx:
  "ListBlog d req (stream\<lparr>stream_ctx := c\<rparr>) w =
     (case ListBlog d req stream w of (r, st, w1) \<Rightarrow> (r, st\<lparr>stream_ctx := c\<rparr>, w1))"
  by (simp add: ListBlog_def ListBlog_body_def loop_stream_ctx [OF refl]
      split: prod.splits sum.splits option.splits)

text \<open>The calls of each handler.\<close>

lemma CreateBlog_calls:
  "\<exists>x. calls (snd (CreateBlog d ctx req w)) = calls w @ [CallInsertOne Background x]"
  by (auto simp: CreateBlog_def InsertOne_def Let_def split: prod.splits sum.splits any.splits)

lemma ReadBlog_calls:
  "calls (snd (ReadBlog d ctx req w)) = calls w
   \<or> (\<exists>f. calls (snd (ReadBlog d ctx req w)) = calls w @ [CallFindOne Background f])"
  by (auto simp: ReadBlog_def FindOne_def Let_def split: prod.splits sum.splits)

lemma UpdateBlog_calls:
  "calls (snd (UpdateBlog d ctx req w)) = calls w
   \<or> (\<exists>f x. calls (snd (UpdateBlog d ctx req w)) = calls w @ [CallReplaceOne Background f x])"
  by (auto simp: UpdateBlog_def ReplaceOne_def Let_def split: prod.splits sum.splits)

lemma DeleteBlog_calls:
  "calls (snd (DeleteBlog d ctx req w)) = calls w
   \<or> (\<exists>f. calls (snd (DeleteBlog d ctx req w)) = calls w @ [CallDeleteOne Background f])"
  by (auto simp: DeleteBlog_def DeleteOne_def Let_def split: prod.splits sum.splits)

lemma ListBlog_calls_any:
  "\<exists>cs. calls (snd (snd (ListBlog d req stream w))) = calls w @ cs
        \<and> (\<forall>c\<in>set cs. call_ctx c = Background)"
proof (cases "findAll d Background EmptyD (store w)")
  case (Pair r s)
  show ?thesis
  proof (cases r)
    case (Inl e)
    with Pair show ?thesis
      by (simp add: ListBlog_def Find_def)
  next
    case (Inr cur)
    with Pair have "findAll d Background EmptyD (store w) = (Inr cur, s)" by simp
    from ListBlog_calls [OF this, of req stream] obtain k where
      "snd (snd (ListBlog d req stream w)) =
         \<lparr>store = s,
          calls = calls w @ CallFind Background EmptyD #
                  replicate k (CallNext Background (cursor_id cur)) @
                  [CallClose Background (cursor_id cur)]\<rparr>"
      by blast
    then show ?thesis by auto
  qed
qed

section \<open>Update\<close>

text \<open>
  An error of the replace call is reported as NotFound, whatever the error is.
\<close>

lemma UpdateBlog_replace_error_NotFound:
  assumes "ObjectIDFromHex (GetId blog) = Inr blogID"
    and "replaceOne d Background (IdFilter blogID)
           \<lparr>ID = NilObjectID, AuthorID = GetAuthorId blog, Content = GetContent blog,
            Title = GetTitle blog\<rparr> (store w) = (Inl updateErr, s)"
  shows "fst (UpdateBlog d ctx (UpdateBlogRequest blog) w) =
           Inl (Errorf NotFound (Sprintf ''Can not update blog : %v'' [Some updateErr]))"
  using assms by (simp add: UpdateBlog_def ReplaceOne_def)

text \<open>
  C1. The claim: an Update with a well-formed id fails with NotFound on any failure of the
  replace, the replace that matches no document included; in particular it does not
  return OK for an id that no record has. The source tests only the error of
  \<^verbatim>\<open>ReplaceOne\<close> (line 163) and discards its result (line 162), so the count of matched
  documents is never looked at. The driver reports a replace that matches nothing as a
  result with \<open>MatchedCount = 0\<close> and no error. Evaluated on the empty collection: the
  Update of an id that no record has returns OK and echoes the request; the one store
  call is the replace, and the collection is still empty.
\<close>

theorem UpdateBlog_unmatched_id_returns_OK:
  "UpdateBlog mem_driver (Incoming None False)
     (UpdateBlogRequest (Some \<lparr>Id = ''000000000000000000000001'', AuthorId = ''u1'', Title = ''hello'', Content = ''world''\<rparr>))
     empty_world =
   (Inr (UpdateBlogResponse
      \<lparr>Id = ''000000000000000000000001'', AuthorId = ''u1'', Title = ''hello'', Content = ''world''\<rparr>),
    empty_world\<lparr>calls := [CallReplaceOne Background (IdFilter (oid_of_nat 1))
      \<lparr>ID = NilObjectID, AuthorID = ''u1'', Content = ''world'', Title = ''hello''\<rparr>]\<rparr>)"
  using Hex_1
  by (simp add: UpdateBlog_def ReplaceOne_def ObjectIDFromHex_1 mem_driver_def mem_replaceOne_def
      empty_world_def blogItemToBlogpb_def)

section \<open>Read\<close>

text \<open>
  In a List, a record that does not decode ends the call with Internal.
\<close>

lemma ListBlog_decode_failure_Internal:
  assumes "findAll d Background EmptyD (store w) = (Inr cur, s)"
    and "pending cur = Inl e # xs"
  shows "fst (ListBlog d req stream w) =
           Some (Errorf Internal (Sprintf ''unable to decode data : %v'' [Some e]))"
  using assms by (simp add: ListBlog_def Find_def ListBlog_body_def loop_Inl)

text \<open>
  C2. The claim: a stored record that fails to decode is reported as Internal, by Read
  as by List, and never as NotFound. The List does so (lines 220-226). The Read has one
  test for every error of \<^verbatim>\<open>res.Decode\<close> (lines 136-141) and answers NotFound for all of
  them. Evaluated on a collection whose one record does not decode into a \<^verbatim>\<open>blogItem\<close>:
  the Read of that record's id answers NotFound, with the decode error in the message.
\<close>

theorem ReadBlog_undecodable_record_NotFound:
  "fst (ReadBlog mem_driver (Incoming None False) (ReadBlogRequest ''000000000000000000000001'')
     (world_of [(oid_of_nat 1, Inl (OtherError ''cannot decode 32-bit integer into a string type''))])) =
   Inl (Errorf NotFound (Sprintf ''Blog not found: %v''
     [Some (OtherError ''cannot decode 32-bit integer into a string type'')]))"
  by (simp add: ReadBlog_def FindOne_def ObjectIDFromHex_1 mem_driver_def mem_findOne_def
      world_of_def SingleResult_Decode_def)

section \<open>Malformed identifiers\<close>

text \<open>
  C3. For every string that \<^verbatim>\<open>ObjectIDFromHex\<close> rejects, Read, Update and Delete called
  with it as the id return InvalidArgument, and the world they return is the world they
  were given: no call is added to the log of store calls and the store state is the
  same, for every driver.
\<close>

theorem malformed_id_rejected_before_store:
  assumes "ObjectIDFromHex s = Inl e"
    and "ReadBlogRequest_GetBlogId rreq = s"
    and "GetId (UpdateBlogRequest_GetBlog ureq) = s"
    and "DeleteBlogRequest_GetBlogId dreq = s"
  shows "ReadBlog d ctx rreq w =
           (Inl (Errorf InvalidArgument (Sprintf ''Invalid blog ID :%v'' [Some e])), w)
       \<and> UpdateBlog d ctx ureq w =
           (Inl (Errorf InvalidArgument (Sprintf ''Can not parse blog ID: %v'' [Some e])), w)
       \<and> DeleteBlog d ctx dreq w =
           (Inl (Errorf InvalidArgument (Sprintf ''Can not parse blog ID: %v'' [Some e])), w)"
  using assms by (simp add: ReadBlog_def UpdateBlog_def DeleteBlog_def)

theorem malformed_id_rejected_witness:
  "ObjectIDFromHex ''not-an-id'' = Inl ErrInvalidHex
   \<and> ReadBlog mem_driver (Incoming None False) (ReadBlogRequest ''not-an-id'') empty_world =
       (Inl (Errorf InvalidArgument (Sprintf ''Invalid blog ID :%v'' [Some ErrInvalidHex])), empty_world)
   \<and> UpdateBlog mem_driver (Incoming None False)
        (UpdateBlogRequest (Some \<lparr>Id = ''not-an-id'', AuthorId = ''u1'', Title = ''t'', Content = ''c''\<rparr>))
        empty_world =
       (Inl (Errorf InvalidArgument (Sprintf ''Can not parse blog ID: %v'' [Some ErrInvalidHex])), empty_world)
   \<and> DeleteBlog mem_driver (Incoming None False) (DeleteBlogRequest ''not-an-id'') empty_world =
       (Inl (Errorf InvalidArgument (Sprintf ''Can not parse blog ID: %v'' [Some ErrInvalidHex])), empty_world)"
proof -
  have h: "ObjectIDFromHex ''not-an-id'' = Inl ErrInvalidHex"
    by (simp add: ObjectIDFromHex_def)
  show ?thesis
    using h malformed_id_rejected_before_store [OF h, of "ReadBlogRequest ''not-an-id''"
      "UpdateBlogRequest (Some \<lparr>Id = ''not-an-id'', AuthorId = ''u1'', Title = ''t'', Content = ''c''\<rparr>)"
      "DeleteBlogRequest ''not-an-id''" mem_driver "Incoming None False" empty_world]
    by simp
qed

section \<open>Create\<close>

text \<open>
  C4. When the insert succeeds and the identifier it returns is an \<^verbatim>\<open>ObjectID\<close>, the
  response of Create has the hex encoding of that identifier as its id, and the author
  id, title and content of the request. The insert is the only store call: nothing is
  read back.
\<close>

theorem CreateBlog_echoes_request:
  assumes "insertOne d Background
             \<lparr>ID = NilObjectID, AuthorID = GetAuthorId blog, Content = GetContent blog,
              Title = GetTitle blog\<rparr> (store w) = (Inr resp, s)"
    and "InsertedID resp = AnyObjectID oid"
  shows "fst (CreateBlog d ctx (CreateBlogRequest blog) w) =
           Inr (CreateBlogResponse
             \<lparr>Id = Hex oid, AuthorId = GetAuthorId blog, Title = GetTitle blog,
              Content = GetContent blog\<rparr>)
       \<and> calls (snd (CreateBlog d ctx (CreateBlogRequest blog) w)) =
           calls w @ [CallInsertOne Background
             \<lparr>ID = NilObjectID, AuthorID = GetAuthorId blog, Content = GetContent blog,
              Title = GetTitle blog\<rparr>]"
  using assms by (simp add: CreateBlog_def InsertOne_def)

theorem CreateBlog_echoes_request_witness:
  "fst (CreateBlog mem_driver (Incoming None False)
          (CreateBlogRequest (Some \<lparr>Id = ''ignored'', AuthorId = ''u1'', Title = ''hello'', Content = ''world''\<rparr>))
          empty_world) =
     Inr (CreateBlogResponse
       \<lparr>Id = ''000000000000000000000001'', AuthorId = ''u1'', Title = ''hello'', Content = ''world''\<rparr>)"
proof -
  let ?blog = "Some \<lparr>Id = ''ignored'', AuthorId = ''u1'', Title = ''hello'', Content = ''world''\<rparr>"
  have h: "insertOne mem_driver Background
             \<lparr>ID = NilObjectID, AuthorID = GetAuthorId ?blog, Content = GetContent ?blog,
              Title = GetTitle ?blog\<rparr> (store empty_world) =
           (Inr \<lparr>InsertedID = AnyObjectID (oid_of_nat 1)\<rparr>,
            \<lparr>docs = [(oid_of_nat 1, Inr \<lparr>ID = oid_of_nat 1, AuthorID = ''u1'', Content = ''world'', Title = ''hello''\<rparr>)],
             next_id = 2\<rparr>)"
    by (simp add: mem_driver_def mem_insertOne_def empty_world_def Let_def NilObjectID_def
        oid_of_nat_def numeral_2_eq_2)
  show ?thesis
    using CreateBlog_echoes_request [OF h, of "oid_of_nat 1" "Incoming None False"] Hex_1
    by simp
qed

text \<open>
  C5. When the insert succeeds and the identifier it returns is not an \<^verbatim>\<open>ObjectID\<close>,
  Create returns an Internal status, and no response.
\<close>

theorem CreateBlog_foreign_id_Internal:
  assumes "insertOne d Background
             \<lparr>ID = NilObjectID, AuthorID = GetAuthorId blog, Content = GetContent blog,
              Title = GetTitle blog\<rparr> (store w) = (Inr resp, s)"
    and "\<forall>oid. InsertedID resp \<noteq> AnyObjectID oid"
  shows "fst (CreateBlog d ctx (CreateBlogRequest blog) w) =
           Inl (Errorf Internal (Sprintf ''Can not convert to ObjectID: %v'' [None]))"
  using assms by (cases "InsertedID resp") (simp_all add: CreateBlog_def InsertOne_def)

theorem CreateBlog_foreign_id_witness:
  "fst (CreateBlog (mem_driver\<lparr>insertOne := \<lambda>c doc s. (Inr \<lparr>InsertedID = AnyString ''42''\<rparr>, s)\<rparr>)
          (Incoming None False)
          (CreateBlogRequest (Some \<lparr>Id = '''', AuthorId = ''u1'', Title = ''hello'', Content = ''world''\<rparr>))
          empty_world) =
     Inl (Errorf Internal (Sprintf ''Can not convert to ObjectID: %v'' [None]))"
  using CreateBlog_foreign_id_Internal
    [of "mem_driver\<lparr>insertOne := \<lambda>c doc s. (Inr \<lparr>InsertedID = AnyString ''42''\<rparr>, s)\<rparr>"
        "Some \<lparr>Id = '''', AuthorId = ''u1'', Title = ''hello'', Content = ''world''\<rparr>"
        empty_world "\<lparr>InsertedID = AnyString ''42''\<rparr>" "store empty_world" "Incoming None False"]
  by simp

section \<open>Delete\<close>

text \<open>
  C6. For a Delete with a well-formed id: an error of the delete call gives Internal; a
  delete that succeeds with a deleted count of zero gives NotFound; any other count gives
  a response whose id is the id string of the request.
\<close>

theorem DeleteBlog_outcomes:
  assumes "ObjectIDFromHex (DeleteBlogRequest_GetBlogId req) = Inr oID"
    and "deleteOne d Background (IdFilter oID) (store w) = (r, s)"
  shows "(r = Inl deleteErr \<longrightarrow>
            fst (DeleteBlog d ctx req w) =
              Inl (Errorf Internal (Sprintf ''Can not delete blog : %v'' [Some deleteErr])))
       \<and> (r = Inr res \<and> DeletedCount res = 0 \<longrightarrow>
            fst (DeleteBlog d ctx req w) =
              Inl (Errorf NotFound (Sprintf ''Not found blog with provided ID'' [])))
       \<and> (r = Inr res \<and> DeletedCount res \<noteq> 0 \<longrightarrow>
            fst (DeleteBlog d ctx req w) =
              Inr (DeleteBlogResponse (DeleteBlogRequest_GetBlogId req)))"
  using assms by (simp add: DeleteBlog_def DeleteOne_def)

theorem DeleteBlog_outcomes_witness:
  "fst (DeleteBlog (failing_driver (OtherError ''server selection timeout'')) (Incoming None False)
          (DeleteBlogRequest ''000000000000000000000001'') empty_world) =
     Inl (Errorf Internal (Sprintf ''Can not delete blog : %v'' [Some (OtherError ''server selection timeout'')]))
   \<and> fst (DeleteBlog mem_driver (Incoming None False)
          (DeleteBlogRequest ''000000000000000000000001'') empty_world) =
     Inl (Errorf NotFound (Sprintf ''Not found blog with provided ID'' []))
   \<and> fst (DeleteBlog mem_driver (Incoming None False)
          (DeleteBlogRequest ''000000000000000000000001'')
          (world_of [(oid_of_nat 1, Inr \<lparr>ID = oid_of_nat 1, AuthorID = ''u1'', Content = ''world'', Title = ''hello''\<rparr>)])) =
     Inr (DeleteBlogResponse ''000000000000000000000001'')"
proof -
  let ?req = "DeleteBlogRequest ''000000000000000000000001''"
  let ?w = "world_of [(oid_of_nat 1, Inr \<lparr>ID = oid_of_nat 1, AuthorID = ''u1'', Content = ''world'', Title = ''hello''\<rparr>)]"
  have p: "ObjectIDFromHex (DeleteBlogRequest_GetBlogId ?req) = Inr (oid_of_nat 1)"
    by (simp add: ObjectIDFromHex_1)
  have a: "deleteOne (failing_driver (OtherError ''server selection timeout'')) Background
             (IdFilter (oid_of_nat 1)) (store empty_world) =
           (Inl (OtherError ''server selection timeout''), store empty_world)"
    by (simp add: failing_driver_def)
  have b: "deleteOne mem_driver Background (IdFilter (oid_of_nat 1)) (store empty_world) =
           (Inr \<lparr>DeletedCount = 0\<rparr>, store empty_world)"
    by (simp add: mem_driver_def mem_deleteOne_def empty_world_def)
  have c: "deleteOne mem_driver Background (IdFilter (oid_of_nat 1)) (store ?w) =
           (Inr \<lparr>DeletedCount = 1\<rparr>, \<lparr>docs = [], next_id = 2\<rparr>)"
    by (simp add: mem_driver_def mem_deleteOne_def world_of_def)
  show ?thesis
    using DeleteBlog_outcomes [OF p a, of "OtherError ''server selection timeout''" "Incoming None False"]
      DeleteBlog_outcomes [OF p b, of _ "Incoming None False" "\<lparr>DeletedCount = 0\<rparr>"]
      DeleteBlog_outcomes [OF p c, of _ "Incoming None False" "\<lparr>DeletedCount = 1\<rparr>"]
    by simp
qed

section \<open>The response of Update\<close>

text \<open>
  C7. For an Update with a well-formed id whose replace call returns no error, the
  response holds the hex encoding of the parsed id and the author id, title and content
  of the request. The replace is the only store call: nothing is read back.
\<close>

theorem UpdateBlog_echoes_request:
  assumes "ObjectIDFromHex (GetId blog) = Inr blogID"
    and "replaceOne d Background (IdFilter blogID)
           \<lparr>ID = NilObjectID, AuthorID = GetAuthorId blog, Content = GetContent blog,
            Title = GetTitle blog\<rparr> (store w) = (Inr res, s)"
  shows "fst (UpdateBlog d ctx (UpdateBlogRequest blog) w) =
           Inr (UpdateBlogResponse
             \<lparr>Id = Hex blogID, AuthorId = GetAuthorId blog, Title = GetTitle blog,
              Content = GetContent blog\<rparr>)
       \<and> calls (snd (UpdateBlog d ctx (UpdateBlogRequest blog) w)) =
           calls w @ [CallReplaceOne Background (IdFilter blogID)
             \<lparr>ID = NilObjectID, AuthorID = GetAuthorId blog, Content = GetContent blog,
              Title = GetTitle blog\<rparr>]"
  using assms by (simp add: UpdateBlog_def ReplaceOne_def blogItemToBlogpb_def)

theorem UpdateBlog_echoes_request_witness:
  "fst (UpdateBlog mem_driver (Incoming None False)
          (UpdateBlogRequest (Some \<lparr>Id = ''000000000000000000000001'', AuthorId = ''u2'', Title = ''new title'', Content = ''new content''\<rparr>))
          (world_of [(oid_of_nat 1, Inr \<lparr>ID = oid_of_nat 1, AuthorID = ''u1'', Content = ''world'', Title = ''hello''\<rparr>)])) =
     Inr (UpdateBlogResponse
       \<lparr>Id = ''000000000000000000000001'', AuthorId = ''u2'', Title = ''new title'', Content = ''new content''\<rparr>)"
proof -
  let ?blog = "Some \<lparr>Id = ''000000000000000000000001'', AuthorId = ''u2'', Title = ''new title'', Content = ''new content''\<rparr>"
  let ?w = "world_of [(oid_of_nat 1, Inr \<lparr>ID = oid_of_nat 1, AuthorID = ''u1'', Content = ''world'', Title = ''hello''\<rparr>)]"
  have p: "ObjectIDFromHex (GetId ?blog) = Inr (oid_of_nat 1)"
    by (simp add: ObjectIDFromHex_1)
  have r: "replaceOne mem_driver Background (IdFilter (oid_of_nat 1))
             \<lparr>ID = NilObjectID, AuthorID = GetAuthorId ?blog, Content = GetContent ?blog,
              Title = GetTitle ?blog\<rparr> (store ?w) =
           (Inr \<lparr>MatchedCount = 1, ModifiedCount = 1, UpsertedCount = 0\<rparr>,
            \<lparr>docs = [(oid_of_nat 1, Inr \<lparr>ID = oid_of_nat 1, AuthorID = ''u2'', Content = ''new content'', Title = ''new title''\<rparr>)],
             next_id = 2\<rparr>)"
    by (simp add: mem_driver_def mem_replaceOne_def world_of_def)
  show ?thesis
    using UpdateBlog_echoes_request [OF p r, of "Incoming None False"] Hex_1
    by simp
qed

section \<open>List\<close>

text \<open>
  C8. Whenever the find of a List returns a cursor, the log of the call is the find, then
  some number of \<^verbatim>\<open>Next\<close> calls on that cursor, then one \<^verbatim>\<open>Close\<close> of that cursor, last:
  the cursor is released whichever way the body ends (the loop running out, a record
  that does not decode, an error of the cursor after the loop).
\<close>

theorem ListBlog_releases_cursor:
  assumes "findAll d Background EmptyD (store w) = (Inr cur, s)"
  shows "\<exists>k. calls (snd (snd (ListBlog d req stream w))) =
           calls w @ CallFind Background EmptyD #
           replicate k (CallNext Background (cursor_id cur)) @
           [CallClose Background (cursor_id cur)]"
proof -
  obtain k where
    "snd (snd (ListBlog d req stream w)) =
       \<lparr>store = s,
        calls = calls w @ CallFind Background EmptyD #
                replicate k (CallNext Background (cursor_id cur)) @
                [CallClose Background (cursor_id cur)]\<rparr>"
    using ListBlog_calls [OF assms] by blast
  then show ?thesis by simp
qed

text \<open>
  The three ways out, each with its log: a clean end, a record that does not decode, and
  a cursor that reports an error after its last document.
\<close>

theorem ListBlog_releases_cursor_witness:
  "(fst (ListBlog mem_driver ListBlogRequest closed_stream (world_of [(oid_of_nat 1, Inr item1)])) = None
    \<and> calls (snd (snd (ListBlog mem_driver ListBlogRequest closed_stream
         (world_of [(oid_of_nat 1, Inr item1)])))) =
       [CallFind Background EmptyD, CallNext Background 0, CallNext Background 0,
        CallClose Background 0])
   \<and> (Code (fst (ListBlog mem_driver ListBlogRequest closed_stream
         (world_of [(oid_of_nat 1, Inl (OtherError ''bad document'')), (oid_of_nat 2, Inr item2)]))) = Internal
    \<and> calls (snd (snd (ListBlog mem_driver ListBlogRequest closed_stream
         (world_of [(oid_of_nat 1, Inl (OtherError ''bad document'')), (oid_of_nat 2, Inr item2)])))) =
       [CallFind Background EmptyD, CallNext Background 0, CallClose Background 0])
   \<and> (Code (fst (ListBlog broken_cursor_driver ListBlogRequest closed_stream empty_world)) = Internal
    \<and> calls (snd (snd (ListBlog broken_cursor_driver ListBlogRequest closed_stream empty_world))) =
       [CallFind Background EmptyD, CallNext Background 7, CallNext Background 7,
        CallClose Background 7])"
proof -
  have h: "findAll mem_driver Background EmptyD (store (world_of [(oid_of_nat 1, Inr item1)])) =
           (Inr \<lparr>cursor_id = 0, pending = [Inr item1], final_err = None, Current = None, err = None\<rparr>,
            store (world_of [(oid_of_nat 1, Inr item1)]))"
    by (simp add: mem_driver_def mem_findAll_def world_of_def)
  show ?thesis
    using ListBlog_releases_cursor [OF h, of ListBlogRequest closed_stream]
    by (simp add: ListBlog_def ListBlog_body_def Find_def Close_def Cursor_Err_def
        mem_driver_def mem_findAll_def broken_cursor_driver_def world_of_def empty_world_def
        loop_Nil loop_Inl loop_Inr)
qed

text \<open>
  C9. What \<^verbatim>\<open>Send\<close> returns is dropped: whatever error the stream answers to each
  \<^verbatim>\<open>Send\<close> (\<open>f\<close> is any function), a List over records that all decode, with no cursor
  error, hands every record to \<^verbatim>\<open>Send\<close>, in order, and returns nil, that is OK.
\<close>

theorem ListBlog_drops_Send_errors:
  assumes "findAll d Background EmptyD (store w) = (Inr cur, s)"
    and "pending cur = map Inr items"
    and "final_err cur = None"
  shows "fst (ListBlog d req (stream\<lparr>send_result := f\<rparr>) w) = None
       \<and> sends (fst (snd (ListBlog d req (stream\<lparr>send_result := f\<rparr>) w))) =
           sends stream @ map (\<lambda>i. ListBlogResponse (blogItemToBlogpb i)) items"
proof -
  let ?w1 = "\<lparr>store = s, calls = calls w @ [CallFind Background EmptyD]\<rparr>"
  let ?st = "stream\<lparr>send_result := f\<rparr>"
  obtain r cur1 st1 w1 where l: "ListBlog_loop cur ?st ?w1 = (r, cur1, st1, w1)"
    by (cases "ListBlog_loop cur ?st ?w1") auto
  from loop_all_decodable [OF assms(2), of ?st ?w1] l assms(3)
  have "r = None" "err cur1 = None"
    "st1 = ?st\<lparr>sends := sends ?st @ map (\<lambda>i. ListBlogResponse (blogItemToBlogpb i)) items\<rparr>"
    by simp_all
  then show ?thesis
    using assms(1) l
    by (simp add: ListBlog_def Find_def ListBlog_body_def Cursor_Err_def)
qed

theorem ListBlog_drops_Send_errors_witness:
  "send_result closed_stream 0 = Some (OtherError ''transport is closing'')
   \<and> Code (fst (ListBlog mem_driver ListBlogRequest closed_stream
        (world_of [(oid_of_nat 1, Inr item1), (oid_of_nat 2, Inr item2)]))) = OK
   \<and> sends (fst (snd (ListBlog mem_driver ListBlogRequest closed_stream
        (world_of [(oid_of_nat 1, Inr item1), (oid_of_nat 2, Inr item2)])))) =
       [ListBlogResponse (blogItemToBlogpb item1), ListBlogResponse (blogItemToBlogpb item2)]"
proof -
  let ?w = "world_of [(oid_of_nat 1, Inr item1), (oid_of_nat 2, Inr item2)]"
  let ?cur = "\<lparr>cursor_id = 0, pending = map Inr [item1, item2], final_err = None,
               Current = None, err = None\<rparr>"
  have h: "findAll mem_driver Background EmptyD (store ?w) = (Inr ?cur, store ?w)"
    by (simp add: mem_driver_def mem_findAll_def world_of_def)
  have p: "pending ?cur = map Inr [item1, item2]" by simp
  have e: "final_err ?cur = None" by simp
  have c: "closed_stream\<lparr>send_result := \<lambda>n. Some (OtherError ''transport is closing'')\<rparr> = closed_stream"
    by (simp add: closed_stream_def)
  show ?thesis
    using ListBlog_drops_Send_errors [where req = ListBlogRequest and stream = closed_stream
        and f = "\<lambda>n. Some (OtherError ''transport is closing'')", OF h p e]
    unfolding c by (simp add: closed_stream_def)
qed

section \<open>The request context\<close>

text \<open>
  C10. No handler reads the context of the call: with any two contexts the four unary
  handlers return the same response and the same world, and a List returns the same
  status, messages and world whatever the context of its stream. Every store call a
  handler issues carries the background context.
\<close>

theorem handlers_ignore_request_context:
  "CreateBlog d ctx creq w = CreateBlog d ctx' creq w
   \<and> ReadBlog d ctx rreq w = ReadBlog d ctx' rreq w
   \<and> UpdateBlog d ctx ureq w = UpdateBlog d ctx' ureq w
   \<and> DeleteBlog d ctx dreq w = DeleteBlog d ctx' dreq w
   \<and> ListBlog d lreq (stream\<lparr>stream_ctx := ctx\<rparr>) w =
       (case ListBlog d lreq stream w of (r, st, w1) \<Rightarrow> (r, st\<lparr>stream_ctx := ctx\<rparr>, w1))
   \<and> (\<forall>c\<in>set (issued w (snd (CreateBlog d ctx creq w))). call_ctx c = Background)
   \<and> (\<forall>c\<in>set (issued w (snd (ReadBlog d ctx rreq w))). call_ctx c = Background)
   \<and> (\<forall>c\<in>set (issued w (snd (UpdateBlog d ctx ureq w))). call_ctx c = Background)
   \<and> (\<forall>c\<in>set (issued w (snd (DeleteBlog d ctx dreq w))). call_ctx c = Background)
   \<and> (\<forall>c\<in>set (issued w (snd (snd (ListBlog d lreq stream w)))). call_ctx c = Background)"
proof -
  have 1: "CreateBlog d ctx creq w = CreateBlog d ctx' creq w"
    by (simp add: CreateBlog_def)
  have 2: "ReadBlog d ctx rreq w = ReadBlog d ctx' rreq w"
    by (simp add: ReadBlog_def)
  have 3: "UpdateBlog d ctx ureq w = UpdateBlog d ctx' ureq w"
    by (simp add: UpdateBlog_def)
  have 4: "DeleteBlog d ctx dreq w = DeleteBlog d ctx' dreq w"
    by (simp add: DeleteBlog_def)
  have 6: "\<forall>c\<in>set (issued w (snd (CreateBlog d ctx creq w))). call_ctx c = Background"
    using CreateBlog_calls [of d ctx creq w] by (auto simp: issued_def)
  have 7: "\<forall>c\<in>set (issued w (snd (ReadBlog d ctx rreq w))). call_ctx c = Background"
    using ReadBlog_calls [of d ctx rreq w] by (auto simp: issued_def)
  have 8: "\<forall>c\<in>set (issued w (snd (UpdateBlog d ctx ureq w))). call_ctx c = Background"
    using UpdateBlog_calls [of d ctx ureq w] by (auto simp: issued_def)
  have 9: "\<forall>c\<in>set (issued w (snd (DeleteBlog d ctx dreq w))). call_ctx c = Background"
    using DeleteBlog_calls [of d ctx dreq w] by (auto simp: issued_def)
  have 10: "\<forall>c\<in>set (issued w (snd (snd (ListBlog d lreq stream w)))). call_ctx c = Background"
    using ListBlog_calls_any [of d lreq stream w] by (auto simp: issued_def)
  show ?thesis
    using 1 2 3 4 6 7 8 9 10 ListBlog_stream_ctx [where d = d and req = lreq and stream = stream and c = ctx and w = w]
    by blast
qed

theorem handlers_ignore_request_context_witness:
  "CreateBlog mem_driver (Incoming (Some 0) True) (CreateBlogRequest None) empty_world =
     CreateBlog mem_driver Background (CreateBlogRequest None) empty_world
   \<and> map call_ctx (issued empty_world
         (snd (CreateBlog mem_driver (Incoming (Some 0) True) (CreateBlogRequest None) empty_world))) =
       [Background]
   \<and> map call_ctx (issued empty_world
         (snd (ReadBlog mem_driver (Incoming (Some 0) True)
            (ReadBlogRequest ''000000000000000000000001'') empty_world))) =
       [Background]
   \<and> map call_ctx (issued empty_world
         (snd (UpdateBlog mem_driver (Incoming (Some 0) True)
            (UpdateBlogRequest (Some \<lparr>Id = ''000000000000000000000001'', AuthorId = ''u1'',
               Title = ''hello'', Content = ''world''\<rparr>)) empty_world))) =
       [Background]
   \<and> map call_ctx (issued empty_world
         (snd (DeleteBlog mem_driver (Incoming (Some 0) True)
            (DeleteBlogRequest ''000000000000000000000001'') empty_world))) =
       [Background]
   \<and> map call_ctx (issued empty_world
         (snd (snd (ListBlog mem_driver ListBlogRequest closed_stream empty_world)))) =
       [Background, Background, Background]"
  using handlers_ignore_request_context [where d = mem_driver and ctx = "Incoming (Some 0) True"
      and ctx' = Background and creq = "CreateBlogRequest None" and w = empty_world
      and rreq = "ReadBlogRequest ''000000000000000000000001''"
      and ureq = "UpdateBlogRequest (Some \<lparr>Id = ''000000000000000000000001'', AuthorId = ''u1'',
               Title = ''hello'', Content = ''world''\<rparr>)"
      and dreq = "DeleteBlogRequest ''000000000000000000000001''"
      and lreq = ListBlogRequest and stream = closed_stream]
  by (simp add: issued_def CreateBlog_def ReadBlog_def UpdateBlog_def DeleteBlog_def
      ListBlog_def ListBlog_body_def InsertOne_def FindOne_def ReplaceOne_def DeleteOne_def
      Find_def Close_def Cursor_Err_def ObjectIDFromHex_1 SingleResult_Decode_def
      mem_driver_def mem_insertOne_def mem_findOne_def mem_replaceOne_def mem_deleteOne_def
      mem_findAll_def empty_world_def loop_Nil Let_def)

end
